theory Spec2Isabelle
  imports Complex_Main
begin

section \<open>Data model of the store (lib/store)\<close>

text \<open>
  The store keeps quizzes, runs, paused runs, settings, the streak record and the diamonds
  balance. TypeScript's \<open>number\<close> is modelled as \<open>real\<close> where the code computes
  fractions with it (scores, diamonds) and as \<open>int\<close> or \<open>nat\<close> where it only counts or
  indexes (\<open>orderIndex\<close>, \<open>currentStreak\<close>, \<open>freezers\<close>); rounding of IEEE doubles is not
  modelled. A \<open>Date\<close> is its number of milliseconds since the epoch. A calendar-day string
  \<open>YYYY-MM-DD\<close> is identified with the number of that day counted from 1970-01-01.
  Field names are the source's; a field whose name is used by two interfaces, or is a
  reserved word here (\<open>id\<close>, \<open>text\<close>), carries the interface as a prefix. A local
  variable of the source that has the name of a field is written with a prime.
\<close>

type_synonym instant = int
type_synonym day = int

record Answer =
  answer_id :: string
  answer_text :: string
  answer_isCorrect :: bool

record Question =
  question_id :: string
  question_text :: string
  orderIndex :: int
  question_answers :: "Answer list"
  images :: "string list option"

record Quiz =
  quiz_id :: string
  title :: string
  description :: string
  createdAt :: instant
  updatedAt :: instant
  questions :: "Question list"

record QuizRunAnswer =
  questionId :: string
  selectedAnswerIds :: "string list"
  isCorrect :: bool

record QuizRun =
  run_id :: string
  run_quizId :: string
  run_quizTitle :: string
  run_timestamp :: instant
  scorePercentage :: real
  totalQuestions :: real
  correctCount :: real
  wrongCount :: real
  run_answers :: "QuizRunAnswer list"
  isIncomplete :: "bool option"
  diamondsEarned :: "real option"

text \<open>The argument of \<open>addRun\<close>: \<open>Omit<QuizRun, "id" | "timestamp" | "diamondsEarned">\<close>.\<close>

record NewRun =
  new_quizId :: string
  new_quizTitle :: string
  new_scorePercentage :: real
  new_totalQuestions :: real
  new_correctCount :: real
  new_wrongCount :: real
  new_answers :: "QuizRunAnswer list"
  new_isIncomplete :: "bool option"

record PausedRun =
  paused_id :: string
  paused_quizId :: string
  currentQuestionIndex :: nat
  paused_selectedAnswerIds :: "string list"
  paused_answers :: "QuizRunAnswer list"
  paused_timestamp :: instant
  shuffle :: bool
  shuffleAnswers :: "bool option"
  questionIds :: "string list option"

record Settings =
  defaultShuffle :: bool
  defaultShuffleAnswers :: bool
  displayName :: string
  avatarPreset :: int
  profileImage :: "string option"
  vibrationEnabled :: bool
  autoAdvanceDelay :: real
  manualConfirmation :: bool

datatype DayStatus = Completed | Freezed | Missed

record StreakData =
  currentStreak :: int
  lastCompletedDate :: "day option"
  freezers :: int
  history :: "day \<rightharpoonup> DayStatus"

record StoreState =
  quizzes :: "Quiz list"
  runs :: "QuizRun list"
  pausedRuns :: "PausedRun list"
  settings :: Settings
  streak :: StreakData
  diamonds :: real

section \<open>Calendar days\<close>

definition msPerDay :: int where
  "msPerDay = 1000 * 60 * 60 * 24"

text \<open>\<open>d.toISOString().split("T")[0]\<close>: the UTC calendar day of an instant.\<close>

definition isoDate :: "instant \<Rightarrow> day" where
  "isoDate t = t div msPerDay"

text \<open>\<open>new Date("YYYY-MM-DD")\<close>: a date-only string is read as midnight UTC of that day.\<close>

definition parseDate :: "day \<Rightarrow> instant" where
  "parseDate d = d * msPerDay"

text \<open>
  \<open>d.setDate(d.getDate() + k)\<close> moves the local calendar date by \<open>k\<close> days and keeps the
  local time of day; the local zone is taken to have a fixed offset from UTC over the days
  involved, so the instant moves by \<open>k\<close> whole days.
\<close>

definition addDays :: "instant \<Rightarrow> int \<Rightarrow> instant" where
  "addDays t k = t + k * msPerDay"

section \<open>Store operations\<close>

subsection \<open>deleteQuiz\<close>

definition deleteQuiz :: "string \<Rightarrow> StoreState \<Rightarrow> StoreState" where
  "deleteQuiz i s =
     s\<lparr>quizzes := filter (\<lambda>q. quiz_id q \<noteq> i) (quizzes s),
       runs := filter (\<lambda>r. run_quizId r \<noteq> i) (runs s),
       pausedRuns := filter (\<lambda>r. paused_quizId r \<noteq> i) (pausedRuns s)\<rparr>"

definition deletePausedRun :: "string \<Rightarrow> StoreState \<Rightarrow> StoreState" where
  "deletePausedRun i s = s\<lparr>pausedRuns := filter (\<lambda>r. paused_id r \<noteq> i) (pausedRuns s)\<rparr>"

subsection \<open>addQuestion and deleteQuestion\<close>

text \<open>
  The state updates of \<open>addQuestion\<close> and \<open>deleteQuestion\<close>. The new question gets
  \<open>maxOrder + 1\<close>, where \<open>maxOrder\<close> is the \<open>reduce\<close> of \<open>Math.max\<close> from \<open>-1\<close>;
  deleting leaves the other indices as they are.
\<close>

definition addQuestion ::
  "string \<Rightarrow> string \<Rightarrow> Answer list \<Rightarrow> string list option \<Rightarrow> string \<Rightarrow> instant \<Rightarrow> StoreState \<Rightarrow> StoreState" where
  "addQuestion quizId txt answers imgs newId now s =
     (let newQuestion = \<lparr>question_id = newId, question_text = txt, orderIndex = 0,
                          question_answers = answers, images = imgs\<rparr>
      in s\<lparr>quizzes :=
             map (\<lambda>q. if quiz_id q = quizId
                       then let maxOrder = foldl (\<lambda>mx qn. max mx (orderIndex qn)) (- 1) (questions q)
                            in q\<lparr>questions := questions q @ [newQuestion\<lparr>orderIndex := maxOrder + 1\<rparr>],
                                 updatedAt := now\<rparr>
                       else q)
                 (quizzes s)\<rparr>)"

definition deleteQuestion :: "string \<Rightarrow> string \<Rightarrow> instant \<Rightarrow> StoreState \<Rightarrow> StoreState" where
  "deleteQuestion quizId qid now s =
     s\<lparr>quizzes :=
         map (\<lambda>q. if quiz_id q = quizId
                   then q\<lparr>questions := filter (\<lambda>qn. question_id qn \<noteq> qid) (questions q),
                          updatedAt := now\<rparr>
                   else q)
             (quizzes s)\<rparr>"

subsection \<open>reorderQuestions\<close>

text \<open>
  \<open>questionIds.map((id, index) => ...)\<close> looks each id up with \<open>find\<close> and gives the
  question found the index as its \<open>orderIndex\<close>; \<open>.filter(Boolean)\<close> drops the ids not
  found.
\<close>

definition reordered :: "Question list \<Rightarrow> string list \<Rightarrow> Question list" where
  "reordered qs ids =
     map the (filter (\<lambda>x. x \<noteq> None)
       (map (\<lambda>(index, i).
               case find (\<lambda>qn. question_id qn = i) qs of
                 Some question \<Rightarrow> Some (question\<lparr>orderIndex := int index\<rparr>)
               | None \<Rightarrow> None)
            (enumerate 0 ids)))"

definition reorderQuiz :: "string list \<Rightarrow> instant \<Rightarrow> Quiz \<Rightarrow> Quiz" where
  "reorderQuiz ids now q = q\<lparr>questions := reordered (questions q) ids, updatedAt := now\<rparr>"

definition reorderQuestions :: "string \<Rightarrow> string list \<Rightarrow> instant \<Rightarrow> StoreState \<Rightarrow> StoreState" where
  "reorderQuestions quizId ids now s =
     s\<lparr>quizzes := map (\<lambda>q. if quiz_id q = quizId then reorderQuiz ids now q else q) (quizzes s)\<rparr>"

text \<open>
  The presentation order of the editor and of a session:
  \<open>[...questions].sort((a, b) => a.orderIndex - b.orderIndex)\<close>, a stable sort.
\<close>

definition sortedQuestions :: "Question list \<Rightarrow> Question list" where
  "sortedQuestions qs = sort_key orderIndex qs"

subsection \<open>addRun\<close>

text \<open>\<open>generateId()\<close> and \<open>new Date()\<close> are inputs of the model: \<open>newId\<close> and \<open>now\<close>.\<close>

definition addRun :: "NewRun \<Rightarrow> string \<Rightarrow> instant \<Rightarrow> StoreState \<Rightarrow> QuizRun \<times> StoreState" where
  "addRun run newId now s =
     (let rawDiamonds = new_totalQuestions run * 0.5 * (new_scorePercentage run / 100);
          diamondsEarned' = rawDiamonds;
          newRun = \<lparr>run_id = newId, run_quizId = new_quizId run,
                    run_quizTitle = new_quizTitle run, run_timestamp = now,
                    scorePercentage = new_scorePercentage run,
                    totalQuestions = new_totalQuestions run,
                    correctCount = new_correctCount run,
                    wrongCount = new_wrongCount run,
                    run_answers = new_answers run,
                    isIncomplete = new_isIncomplete run,
                    diamondsEarned = Some diamondsEarned'\<rparr>
      in (newRun, s\<lparr>runs := newRun # runs s, diamonds := diamonds s + diamondsEarned'\<rparr>))"

subsection \<open>updateStreak and buyFreezer\<close>


text \<open>
  \<open>buyFreezer\<close> is a callback built with the \<open>diamonds\<close> of a render: it tests that
  value, here \<open>diamonds'\<close>, and its updates \<open>prev => prev - 100\<close> and
  \<open>prev => ({...prev, freezers: prev.freezers + 1})\<close> work on the state current when they
  run. Called from the latest render, \<open>diamonds'\<close> is the balance of the store.
\<close>

definition buyFreezer :: "real \<Rightarrow> StoreState \<Rightarrow> bool \<times> StoreState" where
  "buyFreezer diamonds' s =
     (if diamonds' \<ge> 100
      then (True, s\<lparr>diamonds := diamonds s - 100,
                    streak := (streak s)\<lparr>freezers := freezers (streak s) + 1\<rparr>\<rparr>)
      else (False, s))"

subsection \<open>The streak check on initialization\<close>

text \<open>The loop \<open>for (let i = 1; i <= diffDays; i++)\<close> that marks days as freezed.\<close>

function markFreezed :: "instant \<Rightarrow> int \<Rightarrow> int \<Rightarrow> (day \<rightharpoonup> DayStatus) \<Rightarrow> (day \<rightharpoonup> DayStatus)" where
  "markFreezed lastDate diffDays i newHistory =
     (if i \<le> diffDays
      then markFreezed lastDate diffDays (i + 1)
             (newHistory(isoDate (addDays lastDate i) \<mapsto> Freezed))
      else newHistory)"
  by pat_completeness auto
termination
  by (relation "measure (\<lambda>(lastDate, diffDays, i, h). nat (diffDays + 1 - i))") auto

declare markFreezed.simps [simp del]

definition checkStreak :: "instant \<Rightarrow> StreakData \<Rightarrow> StreakData" where
  "checkStreak now prev =
     (let today = isoDate now;
          yesterdayStr = isoDate (addDays now (- 1))
      in if lastCompletedDate prev = Some today then prev
         else if lastCompletedDate prev = Some yesterdayStr then prev
         else case lastCompletedDate prev of
                None \<Rightarrow> prev
              | Some lcd \<Rightarrow>
                  let lastDate = parseDate lcd;
                      diffTime = \<bar>now - lastDate\<bar>;
                      diffDays = \<lceil>real_of_int diffTime / real_of_int msPerDay\<rceil> - 1
                  in if diffDays > 0
                     then if freezers prev \<ge> diffDays
                          then prev\<lparr>freezers := freezers prev - diffDays,
                                    lastCompletedDate := Some yesterdayStr,
                                    history := markFreezed lastDate diffDays 1 (history prev)\<rparr>
                          else prev\<lparr>currentStreak := 0\<rparr>
                     else prev)"

subsection \<open>Paused runs\<close>





section \<open>The quiz session (ActiveQuizScreen)\<close>

text \<open>
  What the screen is given and derives once: the route's \<open>testId\<close>, the quiz found by
  \<open>getQuiz\<close>, the questions in play and the mini-run flag. The session's React state is
  the record \<open>Session\<close>.
\<close>

record QuizScreen =
  testId :: string
  quiz :: "Quiz option"
  screen_questions :: "Question list"
  isMiniRun :: bool

record Session =
  currentIndex :: nat
  session_selectedAnswerIds :: "string list"
  isSubmitted :: bool
  session_answers :: "QuizRunAnswer list"
  activePausedRunId :: "string option"

text \<open>
  A division of two numbers whose divisor is zero gives \<open>NaN\<close> or an infinity in
  JavaScript, never a finite number: the model returns \<open>None\<close> there.
\<close>

definition divide_number :: "real \<Rightarrow> real \<Rightarrow> real option" where
  "divide_number a b = (if b = 0 then None else Some (a / b))"

text \<open>The result is \<open>None\<close> when \<open>scorePercentage\<close> is not a finite number.\<close>

definition calculateIncompleteScore :: "QuizRunAnswer list \<Rightarrow> nat \<Rightarrow> (nat \<times> real) option" where
  "calculateIncompleteScore answers totalQuestions' =
     (let correctCount' = length (filter isCorrect answers)
      in if length answers > 0
         then map_option (\<lambda>r. (correctCount', r * 100))
                (divide_number (real correctCount') (real (length answers)))
         else Some (correctCount', 0))"

text \<open>
  The \<open>onPress\<close> of "End Test". The result is the run recorded, if any, and the store
  after it; \<open>None\<close> when the score is not a finite number. \<open>if (activePausedRunId)\<close> is
  false for \<open>undefined\<close> and for the empty string.
\<close>

definition handleEndEarly ::
  "string \<Rightarrow> instant \<Rightarrow> QuizScreen \<Rightarrow> Session \<Rightarrow> StoreState \<Rightarrow> (QuizRun option \<times> StoreState) option" where
  "handleEndEarly newId now scr sess store =
     (let answers = session_answers sess
      in case calculateIncompleteScore answers (length (screen_questions scr)) of
           None \<Rightarrow> None
         | Some (correctCount', scorePercentage') \<Rightarrow>
             let wrongCount' = real (length answers) - real correctCount'
             in if \<not> isMiniRun scr
                then
                  let (run, store1) =
                        addRun \<lparr>new_quizId = testId scr,
                                new_quizTitle = (case quiz scr of Some q \<Rightarrow> title q | None \<Rightarrow> []),
                                new_scorePercentage = scorePercentage',
                                new_totalQuestions = real (length answers),
                                new_correctCount = real correctCount',
                                new_wrongCount = wrongCount',
                                new_answers = answers,
                                new_isIncomplete = Some True\<rparr> newId now store;
                      store2 = (case activePausedRunId sess of
                                  Some p \<Rightarrow> if p \<noteq> [] then deletePausedRun p store1 else store1
                                | None \<Rightarrow> store1)
                  in Some (Some run, store2)
                else Some (None, store))"



definition handleAnswerSelect :: "string \<Rightarrow> Session \<Rightarrow> Session" where
  "handleAnswerSelect answerId sess =
     (if isSubmitted sess then sess
      else sess\<lparr>session_selectedAnswerIds :=
             (let prev = session_selectedAnswerIds sess
              in if answerId \<in> set prev then filter (\<lambda>i. i \<noteq> answerId) prev
                 else prev @ [answerId])\<rparr>)"

text \<open>\<open>questions[currentIndex]\<close> is \<open>undefined\<close> past the end of the list.\<close>

definition currentQuestion :: "QuizScreen \<Rightarrow> Session \<Rightarrow> Question option" where
  "currentQuestion scr sess =
     (if currentIndex sess < length (screen_questions scr)
      then Some (screen_questions scr ! currentIndex sess) else None)"

text \<open>
  The state update of \<open>handleSubmit\<close>: the submitted flag and the append to the answers.
  The haptic feedback and the timer that advances later are not part of it.
\<close>

definition handleSubmit :: "QuizScreen \<Rightarrow> Session \<Rightarrow> Session" where
  "handleSubmit scr sess =
     (let selectedIds = session_selectedAnswerIds sess
      in case currentQuestion scr sess of
           None \<Rightarrow> sess
         | Some question \<Rightarrow>
             if length selectedIds = 0 then sess
             else
               let correctIds = map answer_id (filter answer_isCorrect (question_answers question));
                   correct = (length selectedIds = length correctIds \<and>
                              list_all (\<lambda>i. i \<in> set correctIds) selectedIds);
                   newAnswer = \<lparr>questionId = question_id question,
                                selectedAnswerIds = selectedIds,
                                isCorrect = correct\<rparr>;
                   prev = session_answers sess
               in sess\<lparr>isSubmitted := True,
                       session_answers :=
                         (if list_ex (\<lambda>a. questionId a = questionId newAnswer) prev
                          then prev else prev @ [newAnswer])\<rparr>)"

section \<open>Initial state and example values\<close>

text \<open>The defaults of the store and the initial values of its state hooks.\<close>

definition defaultSettings :: Settings where
  "defaultSettings =
     \<lparr>defaultShuffle = False, defaultShuffleAnswers = False, displayName = [],
      avatarPreset = 0, profileImage = None, vibrationEnabled = True,
      autoAdvanceDelay = 1.5, manualConfirmation = False\<rparr>"

definition defaultStreak :: StreakData where
  "defaultStreak =
     \<lparr>currentStreak = 0, lastCompletedDate = None, freezers = 0, history = Map.empty\<rparr>"

definition initialStore :: StoreState where
  "initialStore =
     \<lparr>quizzes = [], runs = [], pausedRuns = [], settings = defaultSettings,
      streak = defaultStreak, diamonds = 0\<rparr>"

text \<open>A balance of 250 diamonds with three freezers already owned.\<close>

definition fullFreezerStore :: StoreState where
  "fullFreezerStore = initialStore\<lparr>diamonds := 250, streak := defaultStreak\<lparr>freezers := 3\<rparr>\<rparr>"

text \<open>
  One o'clock UTC on 2024-10-04 (day 20000), and a streak of seven whose last completion was
  on 2024-09-30 (day 19996), four calendar days earlier, with five freezers.
\<close>

definition oneAM :: instant where
  "oneAM = 20000 * 86400000 + 3600000"

definition fourDaysAgoStreak :: StreakData where
  "fourDaysAgoStreak =
     \<lparr>currentStreak = 7, lastCompletedDate = Some 19996, freezers = 5, history = Map.empty\<rparr>"

text \<open>A question with two correct answers out of three, and a one-answer question.\<close>

definition twoOfThree :: Question where
  "twoOfThree =
     \<lparr>question_id = ''q1'', question_text = ''Which are even?'', orderIndex = 0,
      question_answers =
        [\<lparr>answer_id = ''a'', answer_text = ''2'', answer_isCorrect = True\<rparr>,
         \<lparr>answer_id = ''b'', answer_text = ''4'', answer_isCorrect = True\<rparr>,
         \<lparr>answer_id = ''c'', answer_text = ''5'', answer_isCorrect = False\<rparr>],
      images = None\<rparr>"

definition plainQuestion :: "string \<Rightarrow> int \<Rightarrow> Question" where
  "plainQuestion i k =
     \<lparr>question_id = i, question_text = ''?'', orderIndex = k,
      question_answers =
        [\<lparr>answer_id = ''y'', answer_text = ''yes'', answer_isCorrect = True\<rparr>,
         \<lparr>answer_id = ''n'', answer_text = ''no'', answer_isCorrect = False\<rparr>],
      images = None\<rparr>"

definition exampleScreen :: QuizScreen where
  "exampleScreen =
     \<lparr>testId = ''t1'', quiz = None,
      screen_questions = [twoOfThree, plainQuestion ''q2'' 1, plainQuestion ''q3'' 2],
      isMiniRun = False\<rparr>"

definition freshSession :: Session where
  "freshSession =
     \<lparr>currentIndex = 0, session_selectedAnswerIds = [], isSubmitted = False,
      session_answers = [], activePausedRunId = None\<rparr>"


text \<open>A session on its third question with two answers submitted, one of them correct.\<close>

definition twoAnswered :: Session where
  "twoAnswered =
     \<lparr>currentIndex = 2, session_selectedAnswerIds = [], isSubmitted = False,
      session_answers =
        [\<lparr>questionId = ''q1'', selectedAnswerIds = [''b'', ''a''], isCorrect = True\<rparr>,
         \<lparr>questionId = ''q2'', selectedAnswerIds = [''n''], isCorrect = False\<rparr>],
      activePausedRunId = None\<rparr>"

text \<open>The first question answered and shown as submitted, its selection still in place.\<close>

definition alreadyAnswered :: Session where
  "alreadyAnswered =
     \<lparr>currentIndex = 0, session_selectedAnswerIds = [''a''], isSubmitted = True,
      session_answers =
        [\<lparr>questionId = ''q1'', selectedAnswerIds = [''a''], isCorrect = False\<rparr>],
      activePausedRunId = None\<rparr>"

text \<open>A quiz whose questions are stored out of order, with indices 0 and 1.\<close>

definition swappedQuiz :: Quiz where
  "swappedQuiz =
     \<lparr>quiz_id = ''t1'', title = ''T'', description = [], createdAt = 0, updatedAt = 0,
      questions = [plainQuestion ''q2'' 1, plainQuestion ''q1'' 0]\<rparr>"

text \<open>
  A store with one empty quiz, and the store after three questions are added to it and the
  second one is deleted.
\<close>

definition oneQuizStore :: StoreState where
  "oneQuizStore =
     initialStore\<lparr>quizzes :=
       [\<lparr>quiz_id = ''t1'', title = ''T'', description = [], createdAt = 0, updatedAt = 0,
         questions = []\<rparr>]\<rparr>"

definition gapStore :: StoreState where
  "gapStore =
     deleteQuestion ''t1'' ''q2'' 4
       (addQuestion ''t1'' ''?'' [] None ''q3'' 3
         (addQuestion ''t1'' ''?'' [] None ''q2'' 2
           (addQuestion ''t1'' ''?'' [] None ''q1'' 1 oneQuizStore)))"








section \<open>Calendar arithmetic\<close>

lemma msPerDay_pos: "0 < msPerDay"
  by (simp add: msPerDay_def)

lemma isoDate_parseDate_addDays: "isoDate (addDays (parseDate d) k) = d + k"
proof -
  have "d * msPerDay + k * msPerDay = (d + k) * msPerDay"
    by (simp add: algebra_simps)
  then show ?thesis
    using msPerDay_pos by (simp add: isoDate_def addDays_def parseDate_def)
qed

lemma isoDate_yesterday: "isoDate (addDays now (- 1)) = isoDate now - 1"
proof -
  have "(now + (- 1) * msPerDay) div msPerDay = now div msPerDay + (- 1)"
    using msPerDay_pos by (subst div_mult_self1) simp_all
  then show ?thesis
    by (simp add: isoDate_def addDays_def)
qed

text \<open>
  The time from midnight UTC of a day \<open>k\<close> days back until now is \<open>k\<close> whole days and
  the time of day.
\<close>

lemma diffTime_from_day:
  assumes "0 \<le> k"
  shows "\<bar>now - parseDate (isoDate now - k)\<bar> = k * msPerDay + now mod msPerDay"
proof -
  have "now = (now div msPerDay) * msPerDay + now mod msPerDay" by simp
  then have "now - parseDate (isoDate now - k) = k * msPerDay + now mod msPerDay"
    by (simp add: parseDate_def isoDate_def algebra_simps)
  moreover have "0 \<le> k * msPerDay + now mod msPerDay"
    using assms msPerDay_pos by simp
  ultimately show ?thesis by simp
qed

lemma ceil_days:
  assumes "0 \<le> r" and "r < msPerDay"
  shows "\<lceil>real_of_int (k * msPerDay + r) / real_of_int msPerDay\<rceil>
           = k + (if r = 0 then 0 else 1)"
proof -
  have "\<lceil>real_of_int (k * msPerDay + r) / real_of_int msPerDay\<rceil>
          = - (- (k * msPerDay + r) div msPerDay)"
    by (rule ceiling_divide_eq_div)
  also have "- (k * msPerDay + r) = (- k) * msPerDay + (- r)"
    by (simp add: algebra_simps)
  also have "((- k) * msPerDay + (- r)) div msPerDay = - k + (- r) div msPerDay"
    using msPerDay_pos by (subst div_mult_self3) simp_all
  also have "(- r) div msPerDay = (if r = 0 then 0 else - 1)"
    using assms msPerDay_pos by (simp add: zdiv_zminus1_eq_if)
  finally show ?thesis by simp
qed

text \<open>
  \<open>Math.ceil(diffTime / msPerDay) - 1\<close> for a last completion \<open>k\<close> calendar days back:
  \<open>k - 1\<close> at midnight UTC exactly, \<open>k\<close> at every other time of the day.
\<close>

lemma diffDays_gap:
  assumes "0 \<le> k"
  shows "\<lceil>real_of_int \<bar>now - parseDate (isoDate now - k)\<bar> / real_of_int msPerDay\<rceil> - 1
           = k - 1 + (if now mod msPerDay = 0 then 0 else 1)"
  using ceil_days[of "now mod msPerDay" k] msPerDay_pos
  by (simp add: diffTime_from_day[OF assms])

section \<open>The streak check\<close>

lemma checkStreak_gap:
  assumes "lastCompletedDate prev = Some (isoDate now - k)" and "2 \<le> k"
    and "dd = k - 1 + (if now mod msPerDay = 0 then 0 else 1)"
  shows "checkStreak now prev =
           (if freezers prev \<ge> dd
            then prev\<lparr>freezers := freezers prev - dd,
                      lastCompletedDate := Some (isoDate now - 1),
                      history := markFreezed (parseDate (isoDate now - k)) dd 1 (history prev)\<rparr>
            else prev\<lparr>currentStreak := 0\<rparr>)"
proof -
  define c where
    "c = \<lceil>real_of_int \<bar>now - parseDate (isoDate now - k)\<bar> / real_of_int msPerDay\<rceil> - 1"
  have c: "c = dd"
    using diffDays_gap[of k now] assms(2,3) by (simp add: c_def)
  have "checkStreak now prev =
          (if c > 0
           then if freezers prev \<ge> c
                then prev\<lparr>freezers := freezers prev - c,
                          lastCompletedDate := Some (isoDate now - 1),
                          history := markFreezed (parseDate (isoDate now - k)) c 1 (history prev)\<rparr>
                else prev\<lparr>currentStreak := 0\<rparr>
           else prev)"
    unfolding c_def using assms(1,2)
    by (simp add: checkStreak_def isoDate_yesterday Let_def)
  moreover have "dd > 0" using assms(2,3) by simp
  ultimately show ?thesis using c by simp
qed

lemma markFreezed_four:
  "markFreezed (parseDate d) 4 1 h
     = h(d + 1 \<mapsto> Freezed, d + 2 \<mapsto> Freezed, d + 3 \<mapsto> Freezed, d + 4 \<mapsto> Freezed)"
  by (simp add: markFreezed.simps isoDate_parseDate_addDays)

lemma markFreezed_three:
  "markFreezed (parseDate d) 3 1 h
     = h(d + 1 \<mapsto> Freezed, d + 2 \<mapsto> Freezed, d + 3 \<mapsto> Freezed)"
  by (simp add: markFreezed.simps isoDate_parseDate_addDays)

text \<open>
  With a last completion four calendar days back and five freezers, at any time of day
  other than midnight UTC exactly the check takes four freezers and marks four days, the
  current day among them.
\<close>

lemma checkStreak_counts_today:
  assumes "lastCompletedDate prev = Some (isoDate now - 4)" and "freezers prev = 5"
    and "now mod msPerDay \<noteq> 0"
  shows "checkStreak now prev =
           prev\<lparr>freezers := 1, lastCompletedDate := Some (isoDate now - 1),
                history := (history prev)(isoDate now - 3 \<mapsto> Freezed, isoDate now - 2 \<mapsto> Freezed,
                                        isoDate now - 1 \<mapsto> Freezed, isoDate now \<mapsto> Freezed)\<rparr>"
  using checkStreak_gap[OF assms(1), of 4] assms(2,3)
  by (simp add: markFreezed_four)

text \<open>Only at midnight UTC exactly does it take three freezers and mark the three days between.\<close>

lemma checkStreak_at_midnight:
  assumes "lastCompletedDate prev = Some (isoDate now - 4)" and "freezers prev = 5"
    and "now mod msPerDay = 0"
  shows "checkStreak now prev =
           prev\<lparr>freezers := 2, lastCompletedDate := Some (isoDate now - 1),
                history := (history prev)(isoDate now - 3 \<mapsto> Freezed, isoDate now - 2 \<mapsto> Freezed,
                                        isoDate now - 1 \<mapsto> Freezed)\<rparr>"
  using checkStreak_gap[OF assms(1), of 3] assms(2,3)
  by (simp add: markFreezed_three)

text \<open>With one freezer the streak is reset and nothing else changes, at every time of day.\<close>

lemma checkStreak_short_of_freezers:
  assumes "lastCompletedDate prev = Some (isoDate now - 4)" and "freezers prev = 1"
  shows "checkStreak now prev = prev\<lparr>currentStreak := 0\<rparr>"
  using checkStreak_gap[OF assms(1), of "3 + (if now mod msPerDay = 0 then 0 else 1)"] assms(2)
  by simp

text \<open>
  Claim C1. For a streak whose last completion is four calendar days before today and which
  holds five freezers, the check on initialization should take three freezers, leaving two,
  and mark the three days strictly between as freezed. Evaluated at one o'clock UTC on
  2024-10-04 with a last completion on 2024-09-30, the code computes four missed days: it
  leaves one freezer and marks four days, 2024-10-04 itself among them.
\<close>

theorem checkStreak_four_day_gap_at_oneAM:
  "checkStreak oneAM fourDaysAgoStreak =
     \<lparr>currentStreak = 7, lastCompletedDate = Some 19999, freezers = 1,
      history = [19997 \<mapsto> Freezed, 19998 \<mapsto> Freezed, 19999 \<mapsto> Freezed, 20000 \<mapsto> Freezed]\<rparr>"
  by (simp add: checkStreak_def oneAM_def fourDaysAgoStreak_def isoDate_def addDays_def
        parseDate_def msPerDay_def markFreezed.simps Let_def)

section \<open>Buying a freezer\<close>

text \<open>Called from the latest render, \<open>buyFreezer\<close> looks at the balance and at nothing else.\<close>

lemma buyFreezer_checks_balance_only:
  "fst (buyFreezer (diamonds s) s) = (diamonds s \<ge> 100) \<and>
   diamonds (snd (buyFreezer (diamonds s) s))
     = (if diamonds s \<ge> 100 then diamonds s - 100 else diamonds s) \<and>
   freezers (streak (snd (buyFreezer (diamonds s) s)))
     = (if diamonds s \<ge> 100 then freezers (streak s) + 1 else freezers (streak s))"
  by (simp add: buyFreezer_def)

text \<open>
  Two calls of the callback of one render both test the balance of that render: from 150
  diamonds both succeed and the balance is taken below zero.
\<close>

lemma buyFreezer_stale_render:
  "diamonds s = 150 \<Longrightarrow>
   fst (buyFreezer 150 s) \<and> fst (buyFreezer 150 (snd (buyFreezer 150 s))) \<and>
   diamonds (snd (buyFreezer 150 (snd (buyFreezer 150 s)))) = - 50"
  by (simp add: buyFreezer_def)

text \<open>
  Claim C2. The purchase should succeed if and only if the balance is at least 100 and
  fewer than three freezers are owned, and otherwise change nothing. Evaluated with 250
  diamonds and three freezers owned, \<open>buyFreezer\<close> succeeds: it takes 100 diamonds and
  leaves four freezers, above the cap of three that the streak screen shows and enforces on
  its button.
\<close>

theorem buyFreezer_at_cap_buys_fourth:
  "diamonds fullFreezerStore = 250 \<and> freezers (streak fullFreezerStore) = 3 \<and>
   fst (buyFreezer (diamonds fullFreezerStore) fullFreezerStore) \<and>
   diamonds (snd (buyFreezer (diamonds fullFreezerStore) fullFreezerStore)) = 150 \<and>
   freezers (streak (snd (buyFreezer (diamonds fullFreezerStore) fullFreezerStore))) = 4"
  by (simp add: buyFreezer_def fullFreezerStore_def initialStore_def defaultStreak_def)

section \<open>Completing a quiz twice on one day\<close>




section \<open>The run ledger\<close>

text \<open>
  Claim C7. The run stored by \<open>addRun\<close> earns
  \<open>totalQuestions * 0.5 * (scorePercentage / 100)\<close> diamonds, the balance grows by that
  amount, and the run is put at the front of the runs; ten questions at 80 percent earn 4.
\<close>

theorem addRun_diamonds:
  "diamondsEarned (fst (addRun run newId now s))
     = Some (new_totalQuestions run * 0.5 * (new_scorePercentage run / 100)) \<and>
   diamonds (snd (addRun run newId now s))
     = diamonds s + new_totalQuestions run * 0.5 * (new_scorePercentage run / 100) \<and>
   runs (snd (addRun run newId now s)) = fst (addRun run newId now s) # runs s \<and>
   diamondsEarned
     (fst (addRun (run\<lparr>new_totalQuestions := 10, new_scorePercentage := 80\<rparr>) newId now s))
     = Some 4"
  by (simp add: addRun_def Let_def)

section \<open>Deleting a quiz\<close>

text \<open>
  Claim C8. After \<open>deleteQuiz i\<close> no quiz has the id \<open>i\<close> and no run or paused run
  has the quiz id \<open>i\<close>; the quizzes, runs and paused runs of every other id are those of
  before, in their order; settings, streak and diamonds are as before.
\<close>

theorem deleteQuiz_cascade:
  "filter (\<lambda>q. quiz_id q = i) (quizzes (deleteQuiz i s)) = [] \<and>
   filter (\<lambda>r. run_quizId r = i) (runs (deleteQuiz i s)) = [] \<and>
   filter (\<lambda>r. paused_quizId r = i) (pausedRuns (deleteQuiz i s)) = [] \<and>
   filter (\<lambda>q. quiz_id q \<noteq> i) (quizzes (deleteQuiz i s))
     = filter (\<lambda>q. quiz_id q \<noteq> i) (quizzes s) \<and>
   filter (\<lambda>r. run_quizId r \<noteq> i) (runs (deleteQuiz i s))
     = filter (\<lambda>r. run_quizId r \<noteq> i) (runs s) \<and>
   filter (\<lambda>r. paused_quizId r \<noteq> i) (pausedRuns (deleteQuiz i s))
     = filter (\<lambda>r. paused_quizId r \<noteq> i) (pausedRuns s) \<and>
   settings (deleteQuiz i s) = settings s \<and>
   streak (deleteQuiz i s) = streak s \<and>
   diamonds (deleteQuiz i s) = diamonds s"
  by (simp add: deleteQuiz_def)

section \<open>Reordering questions\<close>

lemma find_by_unique_key:
  "distinct (map f xs) \<Longrightarrow> x \<in> set xs \<Longrightarrow> find (\<lambda>y. f y = f x) xs = Some x"
  by (induction xs) (auto simp: image_iff)

lemma find_own_key:
  assumes "x \<in> set xs"
  shows "\<exists>y. find (\<lambda>y. f y = f x) xs = Some y \<and> f y = f x"
proof (cases "find (\<lambda>y. f y = f x) xs")
  case None
  with assms show ?thesis by (auto simp: find_None_iff)
next
  case (Some y)
  then show ?thesis by (auto simp: find_Some_iff)
qed

lemma upt_shift: "[n..<n + Suc k] = n # [Suc n..<Suc n + k]"
  by (subst upt_rec) simp

text \<open>
  When every id given is the id of a question nothing is dropped: the result has the ids
  given, numbered from 0.
\<close>

lemma reordered_pairs_aux:
  assumes "set s \<subseteq> set qs"
  shows "map (\<lambda>qn. (question_id qn, orderIndex qn))
           (map the (filter (\<lambda>x. x \<noteq> None)
             (map (\<lambda>(index, i).
                     case find (\<lambda>qn. question_id qn = i) qs of
                       Some question \<Rightarrow> Some (question\<lparr>orderIndex := int index\<rparr>)
                     | None \<Rightarrow> None)
                  (enumerate n (map question_id s)))))
         = map (\<lambda>(index, qn). (question_id qn, int index)) (enumerate n s)"
  using assms
proof (induction s arbitrary: n)
  case Nil
  then show ?case by simp
next
  case (Cons a s)
  then obtain b where "find (\<lambda>qn. question_id qn = question_id a) qs = Some b"
    and "question_id b = question_id a"
    using find_own_key[of a qs question_id] by auto
  with Cons show ?case by simp
qed

lemma reordered_pairs:
  assumes "set s \<subseteq> set qs"
  shows "map (\<lambda>qn. (question_id qn, orderIndex qn)) (reordered qs (map question_id s))
           = map (\<lambda>(index, qn). (question_id qn, int index)) (enumerate 0 s)"
  unfolding reordered_def using reordered_pairs_aux[OF assms] by simp

text \<open>With unique ids each id finds its own question, which only gets the new index.\<close>

lemma reordered_found_aux:
  assumes "distinct (map question_id qs)" and "set s \<subseteq> set qs"
  shows "map the (filter (\<lambda>x. x \<noteq> None)
           (map (\<lambda>(index, i).
                   case find (\<lambda>qn. question_id qn = i) qs of
                     Some question \<Rightarrow> Some (question\<lparr>orderIndex := int index\<rparr>)
                   | None \<Rightarrow> None)
                (enumerate n (map question_id s))))
         = map (\<lambda>(index, qn). qn\<lparr>orderIndex := int index\<rparr>) (enumerate n s)"
  using assms(2)
proof (induction s arbitrary: n)
  case Nil
  then show ?case by simp
next
  case (Cons a s)
  then have "find (\<lambda>qn. question_id qn = question_id a) qs = Some a"
    using find_by_unique_key[OF assms(1), of a] by simp
  with Cons show ?case by simp
qed

lemma reordered_complete:
  assumes "distinct (map question_id qs)" and "set s \<subseteq> set qs"
  shows "reordered qs (map question_id s)
           = map (\<lambda>(index, qn). qn\<lparr>orderIndex := int index\<rparr>) (enumerate 0 s)"
  unfolding reordered_def using reordered_found_aux[OF assms] by simp

lemma renumber_fixed:
  "map orderIndex s = map int [n..<n + length s] \<Longrightarrow>
   map (\<lambda>(index, qn). qn\<lparr>orderIndex := int index\<rparr>) (enumerate n s) = s"
proof (induction s arbitrary: n)
  case Nil
  then show ?case by simp
next
  case (Cons a s)
  from Cons.prems have a: "orderIndex a = int n"
    and r: "map orderIndex s = map int [Suc n..<Suc n + length s]"
    using upt_shift[of n "length s"] by (simp_all del: upt_Suc)
  from a have "a\<lparr>orderIndex := int n\<rparr> = a" by (cases a) simp
  with Cons.IH[OF r] show ?case by simp
qed

lemma pairs_fixed:
  "map orderIndex s = map int [n..<n + length s] \<Longrightarrow>
   map (\<lambda>(index, qn). (question_id qn, int index)) (enumerate n s)
     = map (\<lambda>qn. (question_id qn, orderIndex qn)) s"
proof (induction s arbitrary: n)
  case Nil
  then show ?case by simp
next
  case (Cons a s)
  from Cons.prems have a: "orderIndex a = int n"
    and r: "map orderIndex s = map int [Suc n..<Suc n + length s]"
    using upt_shift[of n "length s"] by (simp_all del: upt_Suc)
  with Cons.IH[OF r] show ?case by simp
qed

lemma sortedQuestions_subset: "set (sortedQuestions qs) \<subseteq> set qs"
  by (simp add: sortedQuestions_def)

lemma sortedQuestions_length: "length (sortedQuestions qs) = length qs"
  by (simp add: sortedQuestions_def)

text \<open>
  Reordering with the ids in presentation order always numbers the questions from 0 in
  that order, whatever their indices were.
\<close>

lemma reorder_renumbers:
  "map (\<lambda>qn. (question_id qn, orderIndex qn))
     (questions (reorderQuiz (map question_id (sortedQuestions (questions q))) now q))
   = map (\<lambda>(index, qn). (question_id qn, int index)) (enumerate 0 (sortedQuestions (questions q)))"
  by (simp add: reorderQuiz_def reordered_pairs[OF sortedQuestions_subset])

text \<open>
  Claim C5, as stated: for every quiz, reordering with the complete id sequence in the
  current presentation order leaves every \<open>orderIndex\<close> as it is. After three questions
  are added and the second is deleted, the indices are 0 and 2; reordering with the ids
  in that order makes them 0 and 1.
\<close>

theorem reorderQuestions_gap_counterexample:
  "map (\<lambda>qn. (question_id qn, orderIndex qn)) (sortedQuestions (questions (hd (quizzes gapStore))))
     = [(''q1'', 0), (''q3'', 2)] \<and>
   map (\<lambda>qn. (question_id qn, orderIndex qn))
     (questions (hd (quizzes
        (reorderQuestions ''t1''
           (map question_id (sortedQuestions (questions (hd (quizzes gapStore))))) 5 gapStore))))
     = [(''q1'', 0), (''q3'', 1)]"
  by (simp add: gapStore_def oneQuizStore_def initialStore_def addQuestion_def deleteQuestion_def
        reorderQuestions_def reorderQuiz_def reordered_def sortedQuestions_def enumerate_eq_zip Let_def)

text \<open>
  Claim C5, amended: for every quiz whose \<open>orderIndex\<close> values, in presentation order,
  are 0, 1, ..., n - 1, reordering with the complete id sequence in that order leaves every
  question's \<open>orderIndex\<close> as it is: the ids with their indices, in presentation order,
  are the same before and after. When the question ids are distinct the questions
  themselves are as before, stored in presentation order.
\<close>

theorem reorderQuestions_idempotent_contiguous:
  assumes "map orderIndex (sortedQuestions (questions q)) = map int [0..<length (questions q)]"
  shows "map (\<lambda>qn. (question_id qn, orderIndex qn))
           (questions (reorderQuiz (map question_id (sortedQuestions (questions q))) now q))
         = map (\<lambda>qn. (question_id qn, orderIndex qn)) (sortedQuestions (questions q)) \<and>
         (distinct (map question_id (questions q)) \<longrightarrow>
            questions (reorderQuiz (map question_id (sortedQuestions (questions q))) now q)
              = sortedQuestions (questions q))"
proof (intro conjI impI)
  have cont: "map orderIndex (sortedQuestions (questions q))
                = map int [0..<0 + length (sortedQuestions (questions q))]"
    using assms by (simp add: sortedQuestions_length)
  show "map (\<lambda>qn. (question_id qn, orderIndex qn))
          (questions (reorderQuiz (map question_id (sortedQuestions (questions q))) now q))
        = map (\<lambda>qn. (question_id qn, orderIndex qn)) (sortedQuestions (questions q))"
    using pairs_fixed[OF cont]
    by (simp add: reorderQuiz_def reordered_pairs[OF sortedQuestions_subset])
  assume d: "distinct (map question_id (questions q))"
  show "questions (reorderQuiz (map question_id (sortedQuestions (questions q))) now q)
          = sortedQuestions (questions q)"
    using renumber_fixed[OF cont]
    by (simp add: reorderQuiz_def reordered_complete[OF d sortedQuestions_subset])
qed

theorem reorderQuestions_idempotent_contiguous_witness:
  "map orderIndex (sortedQuestions (questions swappedQuiz))
     = map int [0..<length (questions swappedQuiz)] \<and>
   distinct (map question_id (questions swappedQuiz)) \<and>
   map (\<lambda>qn. (question_id qn, orderIndex qn))
     (questions (reorderQuiz (map question_id (sortedQuestions (questions swappedQuiz))) 9 swappedQuiz))
     = [(''q1'', 0), (''q2'', 1)] \<and>
   questions (reorderQuiz (map question_id (sortedQuestions (questions swappedQuiz))) 9 swappedQuiz)
     = [plainQuestion ''q1'' 0, plainQuestion ''q2'' 1]"
proof -
  have srt: "sortedQuestions (questions swappedQuiz) = [plainQuestion ''q1'' 0, plainQuestion ''q2'' 1]"
    by (simp add: swappedQuiz_def sortedQuestions_def plainQuestion_def)
  have h1: "map orderIndex (sortedQuestions (questions swappedQuiz))
              = map int [0..<length (questions swappedQuiz)]"
    unfolding srt by (simp add: swappedQuiz_def plainQuestion_def upt_rec)
  have h2: "distinct (map question_id (questions swappedQuiz))"
    by (simp add: swappedQuiz_def plainQuestion_def)
  have p: "map (\<lambda>qn. (question_id qn, orderIndex qn)) [plainQuestion ''q1'' 0, plainQuestion ''q2'' 1]
             = [(''q1'', 0), (''q2'', 1)]"
    by (simp add: plainQuestion_def)
  show ?thesis
    using h1 h2 reorderQuestions_idempotent_contiguous[OF h1, of 9] srt p by simp
qed

section \<open>Submitting an answer\<close>




text \<open>Toggling answers keeps the selection free of repetitions.\<close>

lemma handleAnswerSelect_distinct:
  "distinct (session_selectedAnswerIds sess) \<Longrightarrow>
   distinct (session_selectedAnswerIds (handleAnswerSelect answerId sess))"
  by (simp add: handleAnswerSelect_def Let_def)




text \<open>
  Claim C9. When the answers already hold an entry for the current question, submitting
  leaves the answers as they are; answers with no two entries for one question stay so;
  and submitting twice is submitting once.
\<close>

theorem handleSubmit_no_duplicate:
  "(currentQuestion scr sess = Some q \<and>
      list_ex (\<lambda>a. questionId a = question_id q) (session_answers sess)
      \<longrightarrow> session_answers (handleSubmit scr sess) = session_answers sess) \<and>
   (distinct (map questionId (session_answers sess))
      \<longrightarrow> distinct (map questionId (session_answers (handleSubmit scr sess)))) \<and>
   handleSubmit scr (handleSubmit scr sess) = handleSubmit scr sess"
proof (intro conjI impI)
  assume "currentQuestion scr sess = Some q \<and>
      list_ex (\<lambda>a. questionId a = question_id q) (session_answers sess)"
  then show "session_answers (handleSubmit scr sess) = session_answers sess"
    by (simp add: handleSubmit_def Let_def)
next
  assume "distinct (map questionId (session_answers sess))"
  then show "distinct (map questionId (session_answers (handleSubmit scr sess)))"
    by (auto simp: handleSubmit_def Let_def list_ex_iff split: option.splits)
next
  have cq: "currentQuestion scr (handleSubmit scr sess) = currentQuestion scr sess"
    by (simp add: handleSubmit_def currentQuestion_def Let_def)
  show "handleSubmit scr (handleSubmit scr sess) = handleSubmit scr sess"
  proof (cases "currentQuestion scr sess")
    case None
    then show ?thesis by (simp add: handleSubmit_def)
  next
    case (Some question)
    then show ?thesis
      by (simp add: handleSubmit_def[of scr "handleSubmit scr sess"] cq)
         (simp add: handleSubmit_def Let_def list_ex_iff)
  qed
qed

theorem handleSubmit_no_duplicate_witness:
  "currentQuestion exampleScreen alreadyAnswered = Some twoOfThree \<and>
   list_ex (\<lambda>a. questionId a = question_id twoOfThree) (session_answers alreadyAnswered) \<and>
   distinct (map questionId (session_answers alreadyAnswered)) \<and>
   session_answers (handleSubmit exampleScreen alreadyAnswered) = session_answers alreadyAnswered \<and>
   distinct (map questionId (session_answers (handleSubmit exampleScreen alreadyAnswered))) \<and>
   handleSubmit exampleScreen (handleSubmit exampleScreen alreadyAnswered)
     = handleSubmit exampleScreen alreadyAnswered"
proof -
  have h1: "currentQuestion exampleScreen alreadyAnswered = Some twoOfThree"
    by (simp add: currentQuestion_def exampleScreen_def alreadyAnswered_def)
  have h2: "list_ex (\<lambda>a. questionId a = question_id twoOfThree) (session_answers alreadyAnswered)"
    by (simp add: alreadyAnswered_def twoOfThree_def)
  have h3: "distinct (map questionId (session_answers alreadyAnswered))"
    by (simp add: alreadyAnswered_def)
  show ?thesis
    using h1 h2 h3 handleSubmit_no_duplicate[of exampleScreen alreadyAnswered twoOfThree]
    by simp
qed

section \<open>Ending a session early\<close>

text \<open>The division is the only way to a score that is not a number, and the guard closes it.\<close>

lemma divide_number_by_zero: "divide_number a 0 = None"
  by (simp add: divide_number_def)

lemma calculateIncompleteScore_nonempty:
  "answers \<noteq> [] \<Longrightarrow>
   calculateIncompleteScore answers n =
     Some (length (filter isCorrect answers),
           real (length (filter isCorrect answers)) / real (length answers) * 100)"
  by (simp add: calculateIncompleteScore_def divide_number_def Let_def)

text \<open>
  Claim C4. Ending early a session that is not a mini-run, with at least one answer
  submitted, records a run at the front of the runs whose \<open>totalQuestions\<close> is the number
  of submitted answers, whose \<open>correctCount\<close> is the number of correct ones among them,
  whose \<open>wrongCount\<close> is the difference, whose \<open>scorePercentage\<close> is
  \<open>100 * correctCount / totalQuestions\<close>, and which is flagged incomplete.
\<close>

theorem handleEndEarly_scores_answered:
  assumes "session_answers sess \<noteq> []" and "\<not> isMiniRun scr"
  shows "\<exists>run store'.
     handleEndEarly newId now scr sess store = Some (Some run, store') \<and>
     runs store' = run # runs store \<and>
     totalQuestions run = real (length (session_answers sess)) \<and>
     correctCount run = real (length (filter isCorrect (session_answers sess))) \<and>
     wrongCount run = totalQuestions run - correctCount run \<and>
     scorePercentage run = 100 * correctCount run / totalQuestions run \<and>
     run_answers run = session_answers sess \<and>
     isIncomplete run = Some True"
  using assms
  by (simp add: handleEndEarly_def calculateIncompleteScore_nonempty addRun_def deletePausedRun_def
        Let_def split: option.splits)

theorem handleEndEarly_scores_answered_witness:
  "session_answers twoAnswered \<noteq> [] \<and> \<not> isMiniRun exampleScreen \<and>
   (\<exists>run store'.
      handleEndEarly ''r1'' oneAM exampleScreen twoAnswered initialStore = Some (Some run, store') \<and>
      runs store' = [run] \<and>
      totalQuestions run = 2 \<and> correctCount run = 1 \<and> wrongCount run = 1 \<and>
      scorePercentage run = 50 \<and> isIncomplete run = Some True)"
proof -
  have h1: "session_answers twoAnswered \<noteq> []"
    by (simp add: twoAnswered_def)
  have h2: "\<not> isMiniRun exampleScreen"
    by (simp add: exampleScreen_def)
  have n: "length (session_answers twoAnswered) = 2"
    and c: "length (filter isCorrect (session_answers twoAnswered)) = 1"
    by (simp_all add: twoAnswered_def)
  have r: "runs initialStore = []"
    by (simp add: initialStore_def)
  from handleEndEarly_scores_answered[OF h1 h2, of "''r1''" oneAM initialStore]
  obtain run store' where
    "handleEndEarly ''r1'' oneAM exampleScreen twoAnswered initialStore = Some (Some run, store')"
    "runs store' = run # runs initialStore"
    "totalQuestions run = real (length (session_answers twoAnswered))"
    "correctCount run = real (length (filter isCorrect (session_answers twoAnswered)))"
    "wrongCount run = totalQuestions run - correctCount run"
    "scorePercentage run = 100 * correctCount run / totalQuestions run"
    "isIncomplete run = Some True"
    by blast
  then have "handleEndEarly ''r1'' oneAM exampleScreen twoAnswered initialStore = Some (Some run, store') \<and>
      runs store' = [run] \<and>
      totalQuestions run = 2 \<and> correctCount run = 1 \<and> wrongCount run = 1 \<and>
      scorePercentage run = 50 \<and> isIncomplete run = Some True"
    by (simp add: n c r)
  with h1 h2 show ?thesis by blast
qed

text \<open>
  Claim C10. For no answers \<open>calculateIncompleteScore\<close> gives 0 correct and a score of
  0, through its guard and not through a division; it gives a number for every list of
  answers; and ending early a session that is not a mini-run with no answer submitted
  records an incomplete run with \<open>totalQuestions\<close> 0 and \<open>scorePercentage\<close> 0.
\<close>

theorem handleEndEarly_no_answers:
  assumes "session_answers sess = []" and "\<not> isMiniRun scr"
  shows "calculateIncompleteScore (session_answers sess) n = Some (0, 0) \<and>
     calculateIncompleteScore answers n \<noteq> None \<and>
     (\<exists>run store'.
        handleEndEarly newId now scr sess store = Some (Some run, store') \<and>
        runs store' = run # runs store \<and>
        totalQuestions run = 0 \<and> scorePercentage run = 0 \<and>
        correctCount run = 0 \<and> wrongCount run = 0 \<and> isIncomplete run = Some True)"
  using assms
  by (simp add: handleEndEarly_def calculateIncompleteScore_def divide_number_def addRun_def
        deletePausedRun_def Let_def split: option.splits)

theorem handleEndEarly_no_answers_witness:
  "session_answers freshSession = [] \<and> \<not> isMiniRun exampleScreen \<and>
   calculateIncompleteScore (session_answers freshSession) 3 = Some (0, 0) \<and>
   (\<exists>run store'.
      handleEndEarly ''r1'' oneAM exampleScreen freshSession initialStore = Some (Some run, store') \<and>
      runs store' = run # runs initialStore \<and>
      totalQuestions run = 0 \<and> scorePercentage run = 0 \<and>
      correctCount run = 0 \<and> wrongCount run = 0 \<and> isIncomplete run = Some True)"
proof -
  have h1: "session_answers freshSession = []"
    by (simp add: freshSession_def)
  have h2: "\<not> isMiniRun exampleScreen"
    by (simp add: exampleScreen_def)
  show ?thesis
    using h1 h2 handleEndEarly_no_answers[OF h1 h2, of 3 "[]" "''r1''" oneAM initialStore]
    by blast
qed

end
